theory Spec2Isabelle
  imports Main
begin

section \<open>Cluster MSI credential lifecycle (pkg/cluster/clustermsi.go)\<close>

text \<open>
  A shallow embedding of \<^verbatim>\<open>pkg/cluster/clustermsi.go\<close>: the certificate-ensure
  workflow, the identity-ID reconciliation with its patch mutation, and the extraction of
  the single explicit identity. Collaborators that the manager only calls through an
  interface (secret store, identity dataplane, feature flags, clock, the api package's
  helpers) are fields of a record of functions; every call the manager makes on the
  secret store, the identity service and the document store is also appended to a call log,
  so that "no write happens" is a statement about that log.
\<close>

subsection \<open>Errors\<close>

text \<open>
  Go error values. \<open>ResponseError c\<close> is a non-nil \<^verbatim>\<open>*azcore.ResponseError\<close> with
  \<^verbatim>\<open>StatusCode = c\<close>; \<open>ErrorString s\<close> is what \<^verbatim>\<open>errors.New\<close> and
  \<^verbatim>\<open>fmt.Errorf\<close> (without \<^verbatim>\<open>%w\<close>) build; \<open>WrapError s e\<close> is an error of another
  dynamic type that wraps \<open>e\<close>. A nil error is \<open>None\<close> of \<open>error option\<close>.
  An error interface that holds a nil \<^verbatim>\<open>*azcore.ResponseError\<close> is not represented.
\<close>

datatype error =
    ResponseError int
  | ErrorString string
  | WrapError string error

text \<open>What an operation does: it returns its error result, or it panics (nil dereference).\<close>

datatype outcome = Return "error option" | Panic

datatype 'a res = Ok 'a | Err error | Panicked

subsection \<open>Data model\<close>

text \<open>
  Modelled from the spec: the declarations of the api, dataplane, swagger and store
  packages are not among the sources of this development; the records below carry the fields that
  section 3 of the specification lists and that \<^verbatim>\<open>clustermsi.go\<close> reads or writes.
  Pointers to strings are \<open>string option\<close>, a slice that may be nil is a \<open>list option\<close>,
  a Go map is a partial function. Sub-records that Go reaches through a pointer (the
  cluster of a document, the identity of a cluster, the response of the identity service
  when it reports no error) are taken to be present; the manager's own document pointer
  \<^verbatim>\<open>m.doc\<close>, which \<^verbatim>\<open>clusterIdentityIDs\<close> reassigns, may be nil.
\<close>

record UserAssignedIdentity =
  ClientID :: string
  PrincipalID :: string

record ManagedServiceIdentity =
  TenantID :: string
  IdentityURL :: string
  UserAssignedIdentities :: "string \<rightharpoonup> UserAssignedIdentity"

record OpenShiftCluster =
  Identity :: ManagedServiceIdentity

record OpenShiftClusterDocument =
  ID :: string
  Key :: string
  OpenShiftCluster :: OpenShiftCluster

record ResourceID =
  Name :: string
  String :: string

record NestedCredentialsObject =
  ClientID_nested :: "string option"
  ObjectID :: "string option"
  NotAfter :: "string option"

record CredentialsObject =
  ExplicitIdentities :: "NestedCredentialsObject option list option"
  payload :: string

record UserAssignedIdentities =
  CredentialsObject :: CredentialsObject
  cloud :: string

record UserAssignedMSIRequest =
  IdentityURL_req :: string
  ResourceIDs :: "string list"
  TenantID_req :: string

text \<open>An instant, as seconds since the Unix epoch.\<close>

type_synonym Time = int

record SecretProperties =
  Enabled :: bool
  Expires :: Time
  Name_sp :: string
  NotBefore :: Time

datatype Feature = FeatureUseMockMsiRp | FeatureOther nat

subsection \<open>Constants of the package\<close>

definition mockMsiCertValidityDays :: int where
  "mockMsiCertValidityDays = 90"

definition errClusterMsiNotPresentInResponse :: error where
  "errClusterMsiNotPresentInResponse =
     ErrorString ''cluster msi not present in msi credentials response''"

definition StatusNotFound :: int where
  "StatusNotFound = 404"

text \<open>The layout constant \<^verbatim>\<open>time.RFC3339\<close>.\<close>

definition RFC3339 :: string where
  "RFC3339 = ''2006-01-02T15:04:05Z07:00''"

subsection \<open>\<^verbatim>\<open>strings.EqualFold\<close>\<close>

text \<open>
  The byte loop of Go's \<^verbatim>\<open>strings.EqualFold\<close>: two bytes agree when they are equal
  or when the smaller one is an upper-case ASCII letter and the larger one is that letter
  plus \<^verbatim>\<open>'a' - 'A'\<close>; the strings agree when all bytes do and the lengths are equal.
  Go leaves this loop for a rune-wise comparison when it meets a byte above 127 and then
  also identifies non-ASCII code points with their simple case folds; here such bytes
  agree only when equal. The theorems about the patch mutation use \<open>EqualFold\<close> as a
  predicate on keys and never look inside it.
\<close>

definition foldEq :: "char \<Rightarrow> char \<Rightarrow> bool" where
  "foldEq sr tr =
     (let s = (of_char sr :: nat); t = (of_char tr :: nat) in
      if t = s then True
      else (let lo = min s t; hi = max s t in
            65 \<le> lo \<and> lo \<le> 90 \<and> hi = lo + 97 - 65))"

fun EqualFold :: "string \<Rightarrow> string \<Rightarrow> bool" where
  "EqualFold [] [] = True"
| "EqualFold (sr # s) (tr # t) = (foldEq sr tr \<and> EqualFold s t)"
| "EqualFold [] (tr # t) = False"
| "EqualFold (sr # s) [] = False"

subsection \<open>\<^verbatim>\<open>getSingleExplicitIdentity\<close>\<close>

definition getSingleExplicitIdentity ::
    "UserAssignedIdentities \<Rightarrow> error + NestedCredentialsObject" where
  "getSingleExplicitIdentity msiCredObj =
     (case ExplicitIdentities (CredentialsObject msiCredObj) of
        None \<Rightarrow> Inl errClusterMsiNotPresentInResponse
      | Some ids \<Rightarrow>
          if length ids = 0 then Inl errClusterMsiNotPresentInResponse
          else (case ids ! 0 of
                  None \<Rightarrow> Inl errClusterMsiNotPresentInResponse
                | Some identity \<Rightarrow> Inr identity))"

subsection \<open>The patch mutation of \<^verbatim>\<open>clusterIdentityIDs\<close>\<close>

text \<open>
  The \<^verbatim>\<open>for k, v := range\<close> loop of the mutation. Go visits the keys of a map in an
  unspecified order, so the order \<open>ks\<close> of this traversal is an argument. The first
  visited key that folds onto the resource id has its entry rewritten under that same key
  and ends the loop with \<open>Some\<close> of the new map; a traversal without such a key gives
  \<open>None\<close>.
\<close>

fun rangeIdentities ::
    "string list \<Rightarrow> string \<Rightarrow> string \<Rightarrow> string \<Rightarrow>
     (string \<rightharpoonup> UserAssignedIdentity) \<Rightarrow> (string \<rightharpoonup> UserAssignedIdentity) option" where
  "rangeIdentities [] rid clientID objectID uais = None"
| "rangeIdentities (k # ks) rid clientID objectID uais =
     (case uais k of
        None \<Rightarrow> rangeIdentities ks rid clientID objectID uais
      | Some v \<Rightarrow>
          if EqualFold k rid
          then Some (uais(k \<mapsto> v\<lparr>ClientID := clientID, PrincipalID := objectID\<rparr>))
          else rangeIdentities ks rid clientID objectID uais)"

text \<open>
  The function literal handed to \<^verbatim>\<open>PatchWithLease\<close>: it returns its error together
  with the document as the in-place updates left it.
\<close>

definition patchIdentityIDs ::
    "string list \<Rightarrow> ResourceID \<Rightarrow> string \<Rightarrow> string \<Rightarrow>
     OpenShiftClusterDocument \<Rightarrow> error option \<times> OpenShiftClusterDocument" where
  "patchIdentityIDs ks clusterMsiResourceId clientID objectID doc =
     (case rangeIdentities ks (String clusterMsiResourceId) clientID objectID
             (UserAssignedIdentities (Identity (OpenShiftCluster doc))) of
        Some uais' \<Rightarrow>
          (None,
           doc\<lparr>OpenShiftCluster := (OpenShiftCluster doc)
                 \<lparr>Identity := (Identity (OpenShiftCluster doc))
                    \<lparr>UserAssignedIdentities := uais'\<rparr>\<rparr>\<rparr>)
      | None \<Rightarrow> (Some (ErrorString ''no entries found matching clusterMsiResourceId''), doc))"

subsection \<open>The document store\<close>

text \<open>
  Modelled from the spec: \<^verbatim>\<open>PatchWithLease\<close> lives in the database package, which is
  not among the sources of this development. The definitions below follow section 4.1 of the
  specification step by step. The store keeps, for each key, a version and a document, and
  the set of keys whose ownership token is held. \<open>interim\<close> is what other writers do to
  the store between the read and the conditional commit. The specification does not say
  which document pointer accompanies an error; the model returns nil (\<open>None\<close>) then.
\<close>

record database =
  documents :: "string \<rightharpoonup> nat \<times> OpenShiftClusterDocument"
  leased :: "string set"

definition errLeaseHeld :: error where
  "errLeaseHeld = ErrorString ''lease held by another owner''"

definition errLeaseConflict :: error where
  "errLeaseConflict = ErrorString ''document changed since it was read''"

definition acquire :: "string \<Rightarrow> database \<Rightarrow> database" where
  "acquire key db = db\<lparr>leased := insert key (leased db)\<rparr>"

definition release :: "string \<Rightarrow> database \<Rightarrow> database" where
  "release key db = db\<lparr>leased := leased db - {key}\<rparr>"

definition commit ::
    "string \<Rightarrow> nat \<Rightarrow> OpenShiftClusterDocument \<Rightarrow> database \<Rightarrow> database option" where
  "commit key version doc db =
     (case documents db key of
        None \<Rightarrow> None
      | Some (version', _) \<Rightarrow>
          if version' = version
          then Some (db\<lparr>documents := (documents db)(key \<mapsto> (Suc version, doc))\<rparr>)
          else None)"

definition PatchWithLease ::
    "(database \<Rightarrow> database) \<Rightarrow> string \<Rightarrow>
     (OpenShiftClusterDocument \<Rightarrow> error option \<times> OpenShiftClusterDocument) \<Rightarrow>
     database \<Rightarrow> (OpenShiftClusterDocument option \<times> error option) \<times> database" where
  "PatchWithLease interim key mutate db =
     (if key \<in> leased db then ((None, Some errLeaseHeld), db)
      else
        (let db1 = acquire key db in
         case documents db1 key of
           None \<Rightarrow> ((None, Some (ResponseError StatusNotFound)), release key db1)
         | Some (version, doc) \<Rightarrow>
             (case mutate doc of
                (Some e, _) \<Rightarrow> ((None, Some e), release key db1)
              | (None, doc') \<Rightarrow>
                  (case commit key version doc' (interim db1) of
                     None \<Rightarrow> ((None, Some errLeaseConflict), release key (interim db1))
                   | Some db2 \<Rightarrow> ((Some doc', None), release key db2)))))"

subsection \<open>The manager and its collaborators\<close>

text \<open>
  The collaborators of the manager. \<open>'w\<close> is the state of the secret store and of the
  identity service; \<open>GetCredentialsObject\<close>, \<open>SetCredentialsObject\<close> and
  \<open>GetUserAssignedIdentities\<close> return their Go result and the state they leave.
  \<open>ClusterMsiResourceId\<close> and \<open>UsesWorkloadIdentity\<close> are the methods of
  \<^verbatim>\<open>api.OpenShiftCluster\<close>; \<open>timeNow\<close>, \<open>AddDate\<close> and \<open>timeParse\<close> are
  \<^verbatim>\<open>time.Now\<close>, \<^verbatim>\<open>Time.AddDate\<close> and \<^verbatim>\<open>time.Parse\<close>; \<open>rangeOrder\<close> is the
  order in which the runtime visits the keys of a map; \<open>otherWriters\<close> is the activity of
  other writers on the document store during a patch.
\<close>

record 'w deps =
  GetCredentialsObject ::
    "string \<Rightarrow> 'w \<Rightarrow> (error + SecretProperties \<times> CredentialsObject) \<times> 'w"
  SetCredentialsObject ::
    "SecretProperties \<Rightarrow> CredentialsObject \<Rightarrow> 'w \<Rightarrow> error option \<times> 'w"
  GetUserAssignedIdentities ::
    "UserAssignedMSIRequest \<Rightarrow> 'w \<Rightarrow> (error + UserAssignedIdentities) \<times> 'w"
  FeatureIsSet :: "Feature \<Rightarrow> bool"
  ClusterMsiResourceId :: "OpenShiftCluster \<Rightarrow> error + ResourceID"
  UsesWorkloadIdentity :: "OpenShiftCluster \<Rightarrow> bool"
  timeNow :: "'w \<Rightarrow> Time"
  AddDate :: "Time \<Rightarrow> int \<Rightarrow> int \<Rightarrow> int \<Rightarrow> Time"
  timeParse :: "string \<Rightarrow> string \<Rightarrow> error + Time"
  rangeOrder :: "(string \<rightharpoonup> UserAssignedIdentity) \<Rightarrow> string list"
  otherWriters :: "database \<Rightarrow> database"

text \<open>Calls on the secret store, the identity service and the document store.\<close>

datatype call =
    CallGetCredentialsObject string
  | CallGetUserAssignedIdentities UserAssignedMSIRequest
  | CallSetCredentialsObject SecretProperties CredentialsObject
  | CallPatchWithLease string

fun isWrite :: "call \<Rightarrow> bool" where
  "isWrite (CallSetCredentialsObject _ _) = True"
| "isWrite _ = False"

fun isFetch :: "call \<Rightarrow> bool" where
  "isFetch (CallGetUserAssignedIdentities _) = True"
| "isFetch _ = False"

text \<open>
  The manager: \<open>doc\<close> is the pointer \<^verbatim>\<open>m.doc\<close> (\<open>None\<close> is nil), \<open>world\<close> the state
  behind the secret store and the identity service, \<open>db\<close> the document store, \<open>calls\<close>
  the calls made so far, oldest first.
\<close>

record 'w manager =
  doc :: "OpenShiftClusterDocument option"
  world :: 'w
  db :: database
  calls :: "call list"

subsection \<open>\<^verbatim>\<open>clusterMsiSecretName\<close>\<close>

definition clusterMsiSecretName :: "'w deps \<Rightarrow> 'w manager \<Rightarrow> string res" where
  "clusterMsiSecretName D m =
     (case doc m of
        None \<Rightarrow> Panicked
      | Some d \<Rightarrow>
          (case ClusterMsiResourceId D (OpenShiftCluster d) of
             Inl err \<Rightarrow> Err err
           | Inr clusterMsi \<Rightarrow> Ok (ID d @ ''-'' @ Name clusterMsi)))"

subsection \<open>\<^verbatim>\<open>ensureClusterMsiCertificate\<close>\<close>

text \<open>
  The type assertion of line 45: the lookup error counts as "not found" only when its
  dynamic type is \<^verbatim>\<open>*azcore.ResponseError\<close> and its status code is 404.
\<close>

fun isNotFound :: "error \<Rightarrow> bool" where
  "isNotFound (ResponseError code) = (code = StatusNotFound)"
| "isNotFound _ = False"

definition uaMsiRequest :: "OpenShiftClusterDocument \<Rightarrow> ResourceID \<Rightarrow> UserAssignedMSIRequest" where
  "uaMsiRequest d clusterMsiResourceId =
     \<lparr>IdentityURL_req = IdentityURL (Identity (OpenShiftCluster d)),
      ResourceIDs = [String clusterMsiResourceId],
      TenantID_req = TenantID (Identity (OpenShiftCluster d))\<rparr>"

text \<open>Lines 67 to 84: the expiration date, from the feature flag or from the identity.\<close>

definition expirationDate :: "'w deps \<Rightarrow> Time \<Rightarrow> UserAssignedIdentities \<Rightarrow> error + Time" where
  "expirationDate D now msiCredObj =
     (if FeatureIsSet D FeatureUseMockMsiRp
      then Inr (AddDate D now 0 0 mockMsiCertValidityDays)
      else
        (case getSingleExplicitIdentity msiCredObj of
           Inl err \<Rightarrow> Inl err
         | Inr identity \<Rightarrow>
             (case NotAfter identity of
                None \<Rightarrow> Inl (ErrorString ''unable to pull NotAfter from the MSI CredentialsObject'')
              | Some notAfter \<Rightarrow> timeParse D RFC3339 notAfter)))"

text \<open>Lines 49 to 93: what follows a lookup that reported "not found".\<close>

definition createClusterMsiCertificate ::
    "'w deps \<Rightarrow> string \<Rightarrow> 'w manager \<Rightarrow> outcome \<times> 'w manager" where
  "createClusterMsiCertificate D secretName m =
     (case doc m of
        None \<Rightarrow> (Panic, m)
      | Some d \<Rightarrow>
          (case ClusterMsiResourceId D (OpenShiftCluster d) of
             Inl err \<Rightarrow> (Return (Some err), m)
           | Inr clusterMsiResourceId \<Rightarrow>
               (let req = uaMsiRequest d clusterMsiResourceId;
                    (r, w) = GetUserAssignedIdentities D req (world m);
                    m1 = m\<lparr>world := w, calls := calls m @ [CallGetUserAssignedIdentities req]\<rparr>
                in case r of
                     Inl err \<Rightarrow> (Return (Some err), m1)
                   | Inr msiCredObj \<Rightarrow>
                       (let now = timeNow D (world m1)
                        in case expirationDate D now msiCredObj of
                             Inl err \<Rightarrow> (Return (Some err), m1)
                           | Inr expires \<Rightarrow>
                               (let secretProperties =
                                      \<lparr>Enabled = True, Expires = expires,
                                       Name_sp = secretName, NotBefore = now\<rparr>;
                                    (err, w') = SetCredentialsObject D secretProperties
                                                  (CredentialsObject msiCredObj) (world m1)
                                in (Return err,
                                    m1\<lparr>world := w',
                                       calls := calls m1 @
                                         [CallSetCredentialsObject secretProperties
                                            (CredentialsObject msiCredObj)]\<rparr>))))))"

definition ensureClusterMsiCertificate :: "'w deps \<Rightarrow> 'w manager \<Rightarrow> outcome \<times> 'w manager" where
  "ensureClusterMsiCertificate D m =
     (case clusterMsiSecretName D m of
        Panicked \<Rightarrow> (Panic, m)
      | Err err \<Rightarrow> (Return (Some err), m)
      | Ok secretName \<Rightarrow>
          (let (r, w) = GetCredentialsObject D secretName (world m);
               m1 = m\<lparr>world := w, calls := calls m @ [CallGetCredentialsObject secretName]\<rparr>
           in case r of
                Inr _ \<Rightarrow> (Return None, m1)
              | Inl err \<Rightarrow>
                  if \<not> isNotFound err then (Return (Some err), m1)
                  else createClusterMsiCertificate D secretName m1))"

subsection \<open>\<^verbatim>\<open>clusterIdentityIDs\<close>\<close>

definition clusterIdentityIDs :: "'w deps \<Rightarrow> 'w manager \<Rightarrow> outcome \<times> 'w manager" where
  "clusterIdentityIDs D m =
     (case doc m of
        None \<Rightarrow> (Panic, m)
      | Some d \<Rightarrow>
          if \<not> UsesWorkloadIdentity D (OpenShiftCluster d)
          then (Return (Some (ErrorString ''clusterIdentityIDs called for CSP cluster'')), m)
          else
            (case ClusterMsiResourceId D (OpenShiftCluster d) of
               Inl err \<Rightarrow> (Return (Some err), m)
             | Inr clusterMsiResourceId \<Rightarrow>
                 (let req = uaMsiRequest d clusterMsiResourceId;
                      (r, w) = GetUserAssignedIdentities D req (world m);
                      m1 = m\<lparr>world := w, calls := calls m @ [CallGetUserAssignedIdentities req]\<rparr>
                  in case r of
                       Inl err \<Rightarrow> (Return (Some err), m1)
                     | Inr msiCredObj \<Rightarrow>
                         (case getSingleExplicitIdentity msiCredObj of
                            Inl err \<Rightarrow> (Return (Some err), m1)
                          | Inr identity \<Rightarrow>
                              (case (ClientID_nested identity, ObjectID identity) of
                                 (Some clientID, Some objectID) \<Rightarrow>
                                   (let ((doc', err), db') =
                                          PatchWithLease (otherWriters D) (Key d)
                                            (\<lambda>doc. patchIdentityIDs
                                               (rangeOrder D (UserAssignedIdentities
                                                  (Identity (OpenShiftCluster doc))))
                                               clusterMsiResourceId clientID objectID doc)
                                            (db m1)
                                    in (Return err,
                                        m1\<lparr>doc := doc', db := db',
                                           calls := calls m1 @ [CallPatchWithLease (Key d)]\<rparr>))
                               | _ \<Rightarrow>
                                   (Return (Some (ErrorString
                                      ''unable to pull clientID and objectID from the MSI CredentialsObject'')),
                                    m1))))))"

subsection \<open>Notation for the statements\<close>

abbreviation identities :: "OpenShiftClusterDocument \<Rightarrow> (string \<rightharpoonup> UserAssignedIdentity)" where
  "identities d \<equiv> UserAssignedIdentities (Identity (OpenShiftCluster d))"

text \<open>The document \<open>d\<close> with its identity map replaced and every other field kept.\<close>

definition withIdentities ::
    "OpenShiftClusterDocument \<Rightarrow> (string \<rightharpoonup> UserAssignedIdentity) \<Rightarrow> OpenShiftClusterDocument" where
  "withIdentities d uais =
     d\<lparr>OpenShiftCluster := (OpenShiftCluster d)
          \<lparr>Identity := (Identity (OpenShiftCluster d))\<lparr>UserAssignedIdentities := uais\<rparr>\<rparr>\<rparr>"

subsection \<open>A concrete instance\<close>

text \<open>
  A secret store that is a map from names to secrets (with an optional injected lookup
  failure), an identity service that always answers with \<open>cred\<close>, a clock that reads
  1700000000, calendar days of 86400 seconds, and a parser that knows one timestamp. The
  instance is used to run the operations on concrete inputs.
\<close>

type_synonym store = "string \<rightharpoonup> SecretProperties \<times> CredentialsObject"

definition exampleDeps :: "bool \<Rightarrow> error option \<Rightarrow> UserAssignedIdentities \<Rightarrow> store deps" where
  "exampleDeps mock fault cred =
     \<lparr>GetCredentialsObject =
        (\<lambda>name w. (case fault of
                      Some e \<Rightarrow> Inl e
                    | None \<Rightarrow> (case w name of
                                 None \<Rightarrow> Inl (ResponseError 404)
                               | Some secret \<Rightarrow> Inr secret), w)),
      SetCredentialsObject = (\<lambda>props obj w. (None, w(Name_sp props \<mapsto> (props, obj)))),
      GetUserAssignedIdentities = (\<lambda>req w. (Inr cred, w)),
      FeatureIsSet = (\<lambda>f. mock \<and> f = FeatureUseMockMsiRp),
      ClusterMsiResourceId = (\<lambda>oc. Inr \<lparr>Name = ''msi'', String = ''foo''\<rparr>),
      UsesWorkloadIdentity = (\<lambda>oc. TenantID (Identity oc) \<noteq> ''csp''),
      timeNow = (\<lambda>w. 1700000000),
      AddDate = (\<lambda>t years months days. t + 86400 * days),
      timeParse =
        (\<lambda>layout v. if layout = RFC3339 \<and> v = ''2030-01-01T00:00:00Z''
                      then Inr 1893456000 else Inl (ErrorString ''cannot parse'')),
      rangeOrder = (\<lambda>uais. filter (\<lambda>k. k \<in> dom uais) [''Foo'', ''FOO'', ''bar'']),
      otherWriters = (\<lambda>db. db)\<rparr>"

definition exampleDoc :: "string \<Rightarrow> (string \<rightharpoonup> UserAssignedIdentity) \<Rightarrow> OpenShiftClusterDocument" where
  "exampleDoc tenant uais =
     \<lparr>ID = ''doc1'', Key = ''key1'',
      OpenShiftCluster = \<lparr>Identity = \<lparr>TenantID = tenant, IdentityURL = ''https://msi'',
                                      UserAssignedIdentities = uais\<rparr>\<rparr>\<rparr>"

definition exampleIdentity :: "string option \<Rightarrow> NestedCredentialsObject" where
  "exampleIdentity notAfter =
     \<lparr>ClientID_nested = Some ''client'', ObjectID = Some ''object'', NotAfter = notAfter\<rparr>"

definition exampleCred :: "NestedCredentialsObject option list option \<Rightarrow> UserAssignedIdentities" where
  "exampleCred ids = \<lparr>CredentialsObject = \<lparr>ExplicitIdentities = ids, payload = ''raw''\<rparr>, cloud = ''public''\<rparr>"

definition exampleManager :: "OpenShiftClusterDocument \<Rightarrow> store \<Rightarrow> database \<Rightarrow> store manager" where
  "exampleManager d w base = \<lparr>doc = Some d, world = w, db = base, calls = []\<rparr>"

definition emptyDatabase :: database where
  "emptyDatabase = \<lparr>documents = Map.empty, leased = {}\<rparr>"

text \<open>A stored document whose only key is \<open>bar\<close>, at version 3 under \<open>key1\<close>.\<close>

definition exampleStored :: OpenShiftClusterDocument where
  "exampleStored = exampleDoc ''tenant'' [''bar'' \<mapsto> \<lparr>ClientID = ''b'', PrincipalID = ''b''\<rparr>]"

definition exampleDatabase :: database where
  "exampleDatabase = \<lparr>documents = [''key1'' \<mapsto> (3, exampleStored)], leased = {}\<rparr>"

section \<open>Properties\<close>

subsection \<open>The range loop and the mutation\<close>

lemma rangeIdentities_None_iff:
  "rangeIdentities ks rid c ob uais = None \<longleftrightarrow> (\<forall>k \<in> set ks. k \<in> dom uais \<longrightarrow> \<not> EqualFold k rid)"
  by (induction ks) (auto split: option.splits)

lemma rangeIdentities_SomeD:
  assumes "rangeIdentities ks rid c ob uais = Some uais'"
  shows "\<exists>k v. k \<in> set ks \<and> uais k = Some v \<and> EqualFold k rid \<and>
               List.find (\<lambda>x. x \<in> dom uais \<and> EqualFold x rid) ks = Some k \<and>
               uais' = uais(k \<mapsto> v\<lparr>ClientID := c, PrincipalID := ob\<rparr>)"
  using assms by (induction ks) (auto split: option.splits if_splits)

lemma patchIdentityIDs_match:
  assumes "k \<in> set ks" and "k \<in> dom (identities d)" and "EqualFold k (String rid)"
  shows "\<exists>k' v. k' \<in> set ks \<and> identities d k' = Some v \<and> EqualFold k' (String rid) \<and>
           List.find (\<lambda>x. x \<in> dom (identities d) \<and> EqualFold x (String rid)) ks = Some k' \<and>
           patchIdentityIDs ks rid c ob d =
             (None, withIdentities d ((identities d)(k' \<mapsto> v\<lparr>ClientID := c, PrincipalID := ob\<rparr>)))"
proof -
  have "rangeIdentities ks (String rid) c ob (identities d) \<noteq> None"
    using assms by (auto simp: rangeIdentities_None_iff)
  then obtain uais' where r: "rangeIdentities ks (String rid) c ob (identities d) = Some uais'"
    by auto
  from rangeIdentities_SomeD [OF r] obtain k' v where
    kv: "k' \<in> set ks" "identities d k' = Some v" "EqualFold k' (String rid)"
      "List.find (\<lambda>x. x \<in> dom (identities d) \<and> EqualFold x (String rid)) ks = Some k'"
      "uais' = (identities d)(k' \<mapsto> v\<lparr>ClientID := c, PrincipalID := ob\<rparr>)"
    by blast
  have "patchIdentityIDs ks rid c ob d = (None, withIdentities d uais')"
    using r by (simp add: patchIdentityIDs_def withIdentities_def)
  with kv show ?thesis by blast
qed

lemma patchIdentityIDs_nomatch:
  assumes "\<forall>k \<in> dom (identities d). \<not> EqualFold k (String rid)"
  shows "patchIdentityIDs ks rid c ob d = (Some (ErrorString ''no entries found matching clusterMsiResourceId''), d)"
proof -
  have "rangeIdentities ks (String rid) c ob (identities d) = None"
    using assms by (simp add: rangeIdentities_None_iff)
  then show ?thesis by (simp add: patchIdentityIDs_def)
qed

lemma patchIdentityIDs_ok_D:
  assumes "fst (patchIdentityIDs ks rid c ob d) = None"
  shows "\<exists>k v. k \<in> set ks \<and> identities d k = Some v \<and> EqualFold k (String rid) \<and>
           patchIdentityIDs ks rid c ob d =
             (None, withIdentities d ((identities d)(k \<mapsto> v\<lparr>ClientID := c, PrincipalID := ob\<rparr>)))"
proof (cases "rangeIdentities ks (String rid) c ob (identities d)")
  case None
  then show ?thesis using assms by (simp add: patchIdentityIDs_def)
next
  case (Some uais')
  from rangeIdentities_SomeD [OF Some] obtain k v where
    "k \<in> set ks" "identities d k = Some v" "EqualFold k (String rid)"
    "uais' = (identities d)(k \<mapsto> v\<lparr>ClientID := c, PrincipalID := ob\<rparr>)"
    by blast
  moreover have "patchIdentityIDs ks rid c ob d = (None, withIdentities d uais')"
    using Some by (simp add: patchIdentityIDs_def withIdentities_def)
  ultimately show ?thesis by blast
qed

text \<open>
  When two keys fold onto the resource id, the traversal order decides which of the two
  entries is rewritten; the other one keeps its ids.
\<close>

lemma patchIdentityIDs_first_match_wins:
  "identities (snd (patchIdentityIDs [''Foo'', ''FOO''] \<lparr>Name = ''msi'', String = ''foo''\<rparr> ''client'' ''object''
     (exampleDoc ''tenant'' [''Foo'' \<mapsto> \<lparr>ClientID = ''old'', PrincipalID = ''old''\<rparr>,
                             ''FOO'' \<mapsto> \<lparr>ClientID = ''old'', PrincipalID = ''old''\<rparr>]))) =
     [''Foo'' \<mapsto> \<lparr>ClientID = ''client'', PrincipalID = ''object''\<rparr>,
      ''FOO'' \<mapsto> \<lparr>ClientID = ''old'', PrincipalID = ''old''\<rparr>] \<and>
   identities (snd (patchIdentityIDs [''FOO'', ''Foo''] \<lparr>Name = ''msi'', String = ''foo''\<rparr> ''client'' ''object''
     (exampleDoc ''tenant'' [''Foo'' \<mapsto> \<lparr>ClientID = ''old'', PrincipalID = ''old''\<rparr>,
                             ''FOO'' \<mapsto> \<lparr>ClientID = ''old'', PrincipalID = ''old''\<rparr>]))) =
     [''Foo'' \<mapsto> \<lparr>ClientID = ''old'', PrincipalID = ''old''\<rparr>,
      ''FOO'' \<mapsto> \<lparr>ClientID = ''client'', PrincipalID = ''object''\<rparr>]"
  by (auto simp: patchIdentityIDs_def exampleDoc_def foldEq_def fun_upd_twist)

text \<open>
  C1: when some key of the document's identity map folds onto the cluster MSI resource id,
  the mutation succeeds and rewrites one such entry: the first one in the order of the
  traversal, which is the given key when that is the only one that folds onto the id. The
  entry gets the fetched client id and object id, it stays under its own key string, and
  the key set is the same as before, so the resource id's own spelling does not appear as a
  new key.
\<close>

theorem patch_updates_matching_entry_under_its_own_key:
  assumes order: "set ks = dom (identities d)"
      and key: "k \<in> dom (identities d)"
      and fold: "EqualFold k (String rid)"
  shows "\<exists>k' v d'.
           List.find (\<lambda>x. EqualFold x (String rid)) ks = Some k' \<and>
           k' \<in> dom (identities d) \<and> EqualFold k' (String rid) \<and>
           ((\<forall>x \<in> dom (identities d). EqualFold x (String rid) \<longrightarrow> x = k) \<longrightarrow> k' = k) \<and>
           identities d k' = Some v \<and>
           patchIdentityIDs ks rid c ob d = (None, d') \<and>
           identities d' k' = Some (v\<lparr>ClientID := c, PrincipalID := ob\<rparr>) \<and>
           dom (identities d') = dom (identities d) \<and>
           (String rid \<in> dom (identities d') \<longrightarrow> String rid \<in> dom (identities d))"
proof -
  from key order have "k \<in> set ks" by simp
  from patchIdentityIDs_match [OF this key fold, of c ob] obtain k' v where
    kv: "k' \<in> set ks" "identities d k' = Some v" "EqualFold k' (String rid)"
      "List.find (\<lambda>x. x \<in> dom (identities d) \<and> EqualFold x (String rid)) ks = Some k'"
      "patchIdentityIDs ks rid c ob d =
         (None, withIdentities d ((identities d)(k' \<mapsto> v\<lparr>ClientID := c, PrincipalID := ob\<rparr>)))"
    by blast
  let ?d' = "withIdentities d ((identities d)(k' \<mapsto> v\<lparr>ClientID := c, PrincipalID := ob\<rparr>))"
  have same: "List.find (\<lambda>x. x \<in> dom (identities d) \<and> EqualFold x (String rid)) ks =
        List.find (\<lambda>x. EqualFold x (String rid)) ks"
    using order by (intro find_cong) auto
  have dom': "k' \<in> dom (identities d)" using kv(2) by blast
  have ids: "identities ?d' = (identities d)(k' \<mapsto> v\<lparr>ClientID := c, PrincipalID := ob\<rparr>)"
    by (simp add: withIdentities_def)
  have "dom (identities ?d') = dom (identities d)"
    using dom' by (auto simp: ids)
  moreover have "identities ?d' k' = Some (v\<lparr>ClientID := c, PrincipalID := ob\<rparr>)"
    by (simp add: ids)
  ultimately show ?thesis
    using kv same dom' by (intro exI [of _ k'] exI [of _ v] exI [of _ ?d']) auto
qed


theorem patch_updates_matching_entry_under_its_own_key_witness:
  "\<exists>d'. patchIdentityIDs [''Foo''] \<lparr>Name = ''msi'', String = ''foo''\<rparr> ''client'' ''object''
            (exampleDoc ''tenant'' [''Foo'' \<mapsto> \<lparr>ClientID = ''old'', PrincipalID = ''old''\<rparr>]) = (None, d') \<and>
         identities d' ''Foo'' = Some \<lparr>ClientID = ''client'', PrincipalID = ''object''\<rparr> \<and>
         dom (identities d') = {''Foo''} \<and> ''foo'' \<notin> dom (identities d')"
proof -
  let ?d = "exampleDoc ''tenant'' [''Foo'' \<mapsto> \<lparr>ClientID = ''old'', PrincipalID = ''old''\<rparr>]"
  let ?rid = "\<lparr>Name = ''msi'', String = ''foo''\<rparr>"
  have ids: "identities ?d = [''Foo'' \<mapsto> \<lparr>ClientID = ''old'', PrincipalID = ''old''\<rparr>]"
    by (simp add: exampleDoc_def)
  have order: "set [''Foo''] = dom (identities ?d)"
    by (simp add: ids)
  have key: "''Foo'' \<in> dom (identities ?d)"
    by (simp add: ids)
  have fold: "EqualFold ''Foo'' (String ?rid)"
    by (simp add: foldEq_def)
  from patch_updates_matching_entry_under_its_own_key [OF order key fold, of "''client''" "''object''"]
  obtain k' v d' where
    r1: "List.find (\<lambda>x. EqualFold x (String ?rid)) [''Foo''] = Some k'"
    and r2: "identities ?d k' = Some v"
    and r3: "patchIdentityIDs [''Foo''] ?rid ''client'' ''object'' ?d = (None, d')"
    and r4: "identities d' k' = Some (v\<lparr>ClientID := ''client'', PrincipalID := ''object''\<rparr>)"
    and r5: "dom (identities d') = dom (identities ?d)"
    by (elim exE conjE)
  from r1 fold have k': "k' = ''Foo''"
    by simp
  from r2 have v: "v = \<lparr>ClientID = ''old'', PrincipalID = ''old''\<rparr>"
    unfolding k' ids by simp
  from r4 have a: "identities d' ''Foo'' = Some \<lparr>ClientID = ''client'', PrincipalID = ''object''\<rparr>"
    unfolding k' v by simp
  from r5 have b: "dom (identities d') = {''Foo''}"
    unfolding ids by simp
  have c: "''foo'' \<notin> dom (identities d')"
    unfolding b by simp
  from r3 a b c show ?thesis
    by (intro exI [of _ d'] conjI)
qed

text \<open>
  C10: a mutation that returns no error has changed one entry of the identity map, an
  entry whose key folds onto the resource id, and in it the client id and the principal id.
  The key set, every other entry and every other field of the document are as before.
\<close>

theorem patch_changes_only_the_matched_entry:
  assumes "fst (patchIdentityIDs ks rid c ob d) = None"
  shows "\<exists>k v d'. patchIdentityIDs ks rid c ob d = (None, d') \<and>
           identities d k = Some v \<and> EqualFold k (String rid) \<and>
           identities d' k = Some (v\<lparr>ClientID := c, PrincipalID := ob\<rparr>) \<and>
           dom (identities d') = dom (identities d) \<and>
           (\<forall>x. x \<noteq> k \<longrightarrow> identities d' x = identities d x) \<and>
           d' = withIdentities d (identities d') \<and>
           ID d' = ID d \<and> Key d' = Key d \<and>
           TenantID (Identity (OpenShiftCluster d')) = TenantID (Identity (OpenShiftCluster d)) \<and>
           IdentityURL (Identity (OpenShiftCluster d')) = IdentityURL (Identity (OpenShiftCluster d))"
proof -
  from patchIdentityIDs_ok_D [OF assms] obtain k v where
    kv: "identities d k = Some v" "EqualFold k (String rid)"
      "patchIdentityIDs ks rid c ob d =
         (None, withIdentities d ((identities d)(k \<mapsto> v\<lparr>ClientID := c, PrincipalID := ob\<rparr>)))"
    by blast
  let ?d' = "withIdentities d ((identities d)(k \<mapsto> v\<lparr>ClientID := c, PrincipalID := ob\<rparr>))"
  have ids: "identities ?d' = (identities d)(k \<mapsto> v\<lparr>ClientID := c, PrincipalID := ob\<rparr>)"
    by (simp add: withIdentities_def)
  have "dom (identities ?d') = dom (identities d)"
    using kv(1) by (auto simp: ids)
  moreover have "?d' = withIdentities d (identities ?d')"
    by (simp add: withIdentities_def)
  moreover have "ID ?d' = ID d" "Key ?d' = Key d"
    "TenantID (Identity (OpenShiftCluster ?d')) = TenantID (Identity (OpenShiftCluster d))"
    "IdentityURL (Identity (OpenShiftCluster ?d')) = IdentityURL (Identity (OpenShiftCluster d))"
    by (simp_all add: withIdentities_def)
  ultimately show ?thesis
    using kv by (intro exI [of _ k] exI [of _ v] exI [of _ ?d']) (simp add: ids)
qed


theorem patch_changes_only_the_matched_entry_witness:
  "\<exists>d'. patchIdentityIDs [''bar'', ''Foo''] \<lparr>Name = ''msi'', String = ''foo''\<rparr> ''client'' ''object''
            (exampleDoc ''tenant'' [''Foo'' \<mapsto> \<lparr>ClientID = ''old'', PrincipalID = ''old''\<rparr>,
                                    ''bar'' \<mapsto> \<lparr>ClientID = ''b'', PrincipalID = ''b''\<rparr>]) = (None, d') \<and>
         identities d' ''bar'' = Some \<lparr>ClientID = ''b'', PrincipalID = ''b''\<rparr> \<and>
         dom (identities d') = {''Foo'', ''bar''} \<and>
         ID d' = ''doc1'' \<and> Key d' = ''key1''"
proof -
  let ?d = "exampleDoc ''tenant'' [''Foo'' \<mapsto> \<lparr>ClientID = ''old'', PrincipalID = ''old''\<rparr>,
                                   ''bar'' \<mapsto> \<lparr>ClientID = ''b'', PrincipalID = ''b''\<rparr>]"
  let ?rid = "\<lparr>Name = ''msi'', String = ''foo''\<rparr>"
  have ids: "identities ?d = [''Foo'' \<mapsto> \<lparr>ClientID = ''old'', PrincipalID = ''old''\<rparr>,
                              ''bar'' \<mapsto> \<lparr>ClientID = ''b'', PrincipalID = ''b''\<rparr>]"
    by (simp add: exampleDoc_def)
  have ok: "fst (patchIdentityIDs [''bar'', ''Foo''] ?rid ''client'' ''object'' ?d) = None"
    by (simp add: patchIdentityIDs_def exampleDoc_def foldEq_def)
  from patch_changes_only_the_matched_entry [OF ok]
  obtain k d' where
    r1: "patchIdentityIDs [''bar'', ''Foo''] ?rid ''client'' ''object'' ?d = (None, d')"
    and r2: "EqualFold k (String ?rid)"
    and r3: "dom (identities d') = dom (identities ?d)"
    and r4: "\<forall>x. x \<noteq> k \<longrightarrow> identities d' x = identities ?d x"
    and r5: "ID d' = ID ?d" and r6: "Key d' = Key ?d"
    by (elim exE conjE)
  have "\<not> EqualFold ''bar'' (String ?rid)"
    by (simp add: foldEq_def)
  with r2 have "''bar'' \<noteq> k"
    by (intro notI) simp
  with r4 have "identities d' ''bar'' = identities ?d ''bar''"
    by simp
  then have a: "identities d' ''bar'' = Some \<lparr>ClientID = ''b'', PrincipalID = ''b''\<rparr>"
    unfolding ids by simp
  from r3 have b: "dom (identities d') = {''Foo'', ''bar''}"
    unfolding ids by (simp add: insert_commute)
  from r5 have c: "ID d' = ''doc1''"
    by (simp add: exampleDoc_def)
  from r6 have d: "Key d' = ''key1''"
    by (simp add: exampleDoc_def)
  from r1 a b c d show ?thesis
    by (intro exI [of _ d'] conjI)
qed

subsection \<open>Extraction of the explicit identity\<close>

text \<open>
  C3: \<open>getSingleExplicitIdentity\<close> returns \<open>errClusterMsiNotPresentInResponse\<close> exactly
  when the sequence of explicit identities is nil, empty, or starts with a nil element, and
  it returns no other error; otherwise it returns the first element. The length is not
  checked: a sequence of two populated entries yields the first.
\<close>

theorem getSingleExplicitIdentity_cases:
  "(getSingleExplicitIdentity r = Inl errClusterMsiNotPresentInResponse \<longleftrightarrow>
      ExplicitIdentities (CredentialsObject r) = None \<or>
      ExplicitIdentities (CredentialsObject r) = Some [] \<or>
      (\<exists>rest. ExplicitIdentities (CredentialsObject r) = Some (None # rest))) \<and>
   (\<forall>e. getSingleExplicitIdentity r = Inl e \<longrightarrow> e = errClusterMsiNotPresentInResponse) \<and>
   (\<forall>x rest. ExplicitIdentities (CredentialsObject r) = Some (Some x # rest) \<longrightarrow>
      getSingleExplicitIdentity r = Inr x) \<and>
   (\<forall>x y. getSingleExplicitIdentity (r\<lparr>CredentialsObject :=
               (CredentialsObject r)\<lparr>ExplicitIdentities := Some [Some x, Some y]\<rparr>\<rparr>) = Inr x)"
proof (cases "ExplicitIdentities (CredentialsObject r)")
  case None
  then show ?thesis by (simp add: getSingleExplicitIdentity_def)
next
  case (Some ids)
  show ?thesis
  proof (cases ids)
    case Nil
    with Some show ?thesis by (simp add: getSingleExplicitIdentity_def)
  next
    case (Cons first rest)
    with Some show ?thesis
      by (cases first) (simp_all add: getSingleExplicitIdentity_def)
  qed
qed

theorem getSingleExplicitIdentity_cases_witness:
  "getSingleExplicitIdentity
     (exampleCred (Some [Some (exampleIdentity None), Some (exampleIdentity (Some ''x''))])) =
     Inr (exampleIdentity None) \<and>
   getSingleExplicitIdentity (exampleCred None) = Inl errClusterMsiNotPresentInResponse \<and>
   getSingleExplicitIdentity (exampleCred (Some [])) = Inl errClusterMsiNotPresentInResponse \<and>
   getSingleExplicitIdentity (exampleCred (Some [None, Some (exampleIdentity None)])) =
     Inl errClusterMsiNotPresentInResponse"
proof -
  let ?two = "exampleCred (Some [Some (exampleIdentity None), Some (exampleIdentity (Some ''x''))])"
  let ?nil = "exampleCred None"
  let ?empty = "exampleCred (Some [])"
  let ?hole = "exampleCred (Some [None, Some (exampleIdentity None)])"
  have two: "ExplicitIdentities (CredentialsObject ?two) =
               Some (Some (exampleIdentity None) # [Some (exampleIdentity (Some ''x''))])"
    by (simp add: exampleCred_def)
  have nil: "ExplicitIdentities (CredentialsObject ?nil) = None"
    by (simp add: exampleCred_def)
  have empty: "ExplicitIdentities (CredentialsObject ?empty) = Some []"
    by (simp add: exampleCred_def)
  have hole: "\<exists>rest. ExplicitIdentities (CredentialsObject ?hole) = Some (None # rest)"
    by (simp add: exampleCred_def)
  have a: "getSingleExplicitIdentity ?two = Inr (exampleIdentity None)"
    using getSingleExplicitIdentity_cases [of ?two, THEN conjunct2, THEN conjunct2, THEN conjunct1]
      two by (elim allE impE)
  have b: "getSingleExplicitIdentity ?nil = Inl errClusterMsiNotPresentInResponse"
    using getSingleExplicitIdentity_cases [of ?nil, THEN conjunct1] nil by (elim iffE impE) (intro disjI1)
  have c: "getSingleExplicitIdentity ?empty = Inl errClusterMsiNotPresentInResponse"
    using getSingleExplicitIdentity_cases [of ?empty, THEN conjunct1] empty
    by (elim iffE impE) (intro disjI2 disjI1)
  have d: "getSingleExplicitIdentity ?hole = Inl errClusterMsiNotPresentInResponse"
    using getSingleExplicitIdentity_cases [of ?hole, THEN conjunct1] hole
    by (elim iffE impE) (intro disjI2)
  from a b c d show ?thesis
    by (intro conjI)
qed

subsection \<open>The certificate workflow\<close>

lemma ensure_found:
  assumes "clusterMsiSecretName D m = Ok secretName"
      and "GetCredentialsObject D secretName (world m) = (Inr secret, w)"
  shows "ensureClusterMsiCertificate D m =
           (Return None, m\<lparr>world := w, calls := calls m @ [CallGetCredentialsObject secretName]\<rparr>)"
  using assms by (simp add: ensureClusterMsiCertificate_def)

lemma ensure_lookup_error:
  assumes "clusterMsiSecretName D m = Ok secretName"
      and "GetCredentialsObject D secretName (world m) = (Inl err, w)"
  shows "ensureClusterMsiCertificate D m =
           (if isNotFound err
            then createClusterMsiCertificate D secretName
                   (m\<lparr>world := w, calls := calls m @ [CallGetCredentialsObject secretName]\<rparr>)
            else (Return (Some err),
                  m\<lparr>world := w, calls := calls m @ [CallGetCredentialsObject secretName]\<rparr>))"
  using assms by (simp add: ensureClusterMsiCertificate_def)

lemma create_fetched:
  assumes "doc m = Some d"
      and "ClusterMsiResourceId D (OpenShiftCluster d) = Inr rid"
      and "GetUserAssignedIdentities D (uaMsiRequest d rid) (world m) = (Inr cred, w)"
  shows "createClusterMsiCertificate D secretName m =
           (case expirationDate D (timeNow D w) cred of
              Inl err \<Rightarrow>
                (Return (Some err),
                 m\<lparr>world := w,
                   calls := calls m @ [CallGetUserAssignedIdentities (uaMsiRequest d rid)]\<rparr>)
            | Inr expires \<Rightarrow>
                (Return (fst (SetCredentialsObject D
                    \<lparr>Enabled = True, Expires = expires, Name_sp = secretName,
                     NotBefore = timeNow D w\<rparr> (CredentialsObject cred) w)),
                 m\<lparr>world := snd (SetCredentialsObject D
                    \<lparr>Enabled = True, Expires = expires, Name_sp = secretName,
                     NotBefore = timeNow D w\<rparr> (CredentialsObject cred) w),
                   calls := calls m @
                     [CallGetUserAssignedIdentities (uaMsiRequest d rid),
                      CallSetCredentialsObject
                        \<lparr>Enabled = True, Expires = expires, Name_sp = secretName,
                         NotBefore = timeNow D w\<rparr> (CredentialsObject cred)]\<rparr>))"
  using assms
  by (simp add: createClusterMsiCertificate_def Let_def split: sum.splits prod.splits)

lemma secretName_doc:
  assumes "clusterMsiSecretName D m = Ok secretName"
  shows "\<exists>d rid. doc m = Some d \<and> ClusterMsiResourceId D (OpenShiftCluster d) = Inr rid \<and>
           secretName = ID d @ ''-'' @ Name rid"
  using assms by (auto simp: clusterMsiSecretName_def split: option.splits sum.splits)


lemma ensure_created:
  assumes name: "clusterMsiSecretName D m = Ok secretName"
      and lookup: "GetCredentialsObject D secretName (world m) = (Inl err, w1)"
      and nf: "isNotFound err"
      and d: "doc m = Some d"
      and rid: "ClusterMsiResourceId D (OpenShiftCluster d) = Inr rid"
      and fetch: "GetUserAssignedIdentities D (uaMsiRequest d rid) w1 = (Inr cred, w2)"
      and exp: "expirationDate D (timeNow D w2) cred = Inr expires"
      and props: "props = \<lparr>Enabled = True, Expires = expires, Name_sp = secretName,
                            NotBefore = timeNow D w2\<rparr>"
  shows "ensureClusterMsiCertificate D m =
           (Return (fst (SetCredentialsObject D props (CredentialsObject cred) w2)),
            m\<lparr>world := snd (SetCredentialsObject D props (CredentialsObject cred) w2),
              calls := calls m @
                [CallGetCredentialsObject secretName,
                 CallGetUserAssignedIdentities (uaMsiRequest d rid),
                 CallSetCredentialsObject props (CredentialsObject cred)]\<rparr>)"
proof -
  let ?m1 = "m\<lparr>world := w1, calls := calls m @ [CallGetCredentialsObject secretName]\<rparr>"
  have "ensureClusterMsiCertificate D m = createClusterMsiCertificate D secretName ?m1"
    using ensure_lookup_error [OF name lookup] nf by simp
  moreover have "doc ?m1 = Some d" using d by simp
  moreover have "GetUserAssignedIdentities D (uaMsiRequest d rid) (world ?m1) = (Inr cred, w2)"
    using fetch by simp
  ultimately show ?thesis
    using create_fetched [of ?m1 d D rid cred w2 secretName] rid exp props
    by simp
qed

lemma ensure_not_created:
  assumes name: "clusterMsiSecretName D m = Ok secretName"
      and lookup: "GetCredentialsObject D secretName (world m) = (Inl err, w1)"
      and nf: "isNotFound err"
      and d: "doc m = Some d"
      and rid: "ClusterMsiResourceId D (OpenShiftCluster d) = Inr rid"
      and fetch: "GetUserAssignedIdentities D (uaMsiRequest d rid) w1 = (Inr cred, w2)"
      and exp: "expirationDate D (timeNow D w2) cred = Inl e"
  shows "ensureClusterMsiCertificate D m =
           (Return (Some e),
            m\<lparr>world := w2,
              calls := calls m @
                [CallGetCredentialsObject secretName,
                 CallGetUserAssignedIdentities (uaMsiRequest d rid)]\<rparr>)"
proof -
  let ?m1 = "m\<lparr>world := w1, calls := calls m @ [CallGetCredentialsObject secretName]\<rparr>"
  have "ensureClusterMsiCertificate D m = createClusterMsiCertificate D secretName ?m1"
    using ensure_lookup_error [OF name lookup] nf by simp
  moreover have "doc ?m1 = Some d" using d by simp
  moreover have "GetUserAssignedIdentities D (uaMsiRequest d rid) (world ?m1) = (Inr cred, w2)"
    using fetch by simp
  ultimately show ?thesis
    using create_fetched [of ?m1 d D rid cred w2 secretName] rid exp
    by simp
qed

lemma isNotFound_iff: "isNotFound err \<longleftrightarrow> err = ResponseError 404"
  by (cases err) (simp_all add: StatusNotFound_def)

lemma create_calls_fetch:
  assumes "doc m = Some d"
      and "ClusterMsiResourceId D (OpenShiftCluster d) = Inr rid"
  shows "\<exists>rest. calls (snd (createClusterMsiCertificate D secretName m)) =
           calls m @ CallGetUserAssignedIdentities (uaMsiRequest d rid) # rest"
  using assms
  by (simp add: createClusterMsiCertificate_def Let_def split: sum.splits prod.splits)

text \<open>Facts about the concrete instance.\<close>

lemma example_secretName:
  "clusterMsiSecretName (exampleDeps mock fault cred)
     (exampleManager (exampleDoc tenant uais) w base) = Ok ''doc1-msi''"
  by (simp add: clusterMsiSecretName_def exampleDeps_def exampleManager_def exampleDoc_def)

lemma example_rid:
  "ClusterMsiResourceId (exampleDeps mock fault cred) oc = Inr \<lparr>Name = ''msi'', String = ''foo''\<rparr>"
  by (simp add: exampleDeps_def)

lemma example_request:
  "uaMsiRequest (exampleDoc tenant uais) \<lparr>Name = ''msi'', String = ''foo''\<rparr> =
     \<lparr>IdentityURL_req = ''https://msi'', ResourceIDs = [''foo''], TenantID_req = tenant\<rparr>"
  by (simp add: uaMsiRequest_def exampleDoc_def)

lemma example_fetch:
  "GetUserAssignedIdentities (exampleDeps mock fault cred) req w = (Inr cred, w)"
  by (simp add: exampleDeps_def)

lemma example_lookup_empty:
  "GetCredentialsObject (exampleDeps mock None cred) name Map.empty =
     (Inl (ResponseError 404), Map.empty)"
  by (simp add: exampleDeps_def)

lemma example_lookup_fault:
  "GetCredentialsObject (exampleDeps mock (Some e) cred) name w = (Inl e, w)"
  by (simp add: exampleDeps_def)

lemma example_set:
  "SetCredentialsObject (exampleDeps mock fault cred) props obj w =
     (None, w(Name_sp props \<mapsto> (props, obj)))"
  by (simp add: exampleDeps_def)

lemma example_manager_fields:
  "doc (exampleManager d w base) = Some d"
  "world (exampleManager d w base) = w"
  "db (exampleManager d w base) = base"
  "calls (exampleManager d w base) = []"
  by (simp_all add: exampleManager_def)

lemma example_single:
  "getSingleExplicitIdentity (exampleCred (Some [Some identity])) = Inr identity"
  by (simp add: getSingleExplicitIdentity_def exampleCred_def)

text \<open>
  C4: when the lookup of the secret name succeeds, \<open>ensureClusterMsiCertificate\<close> returns
  nil at once: the lookup is the only call it makes, so neither an identity-service fetch
  nor a store write is added to the call log.
\<close>

theorem ensure_found_is_noop:
  assumes "clusterMsiSecretName D m = Ok secretName"
      and "GetCredentialsObject D secretName (world m) = (Inr secret, w)"
  shows "ensureClusterMsiCertificate D m =
           (Return None, m\<lparr>world := w, calls := calls m @ [CallGetCredentialsObject secretName]\<rparr>) \<and>
         filter isFetch (calls (snd (ensureClusterMsiCertificate D m))) = filter isFetch (calls m) \<and>
         filter isWrite (calls (snd (ensureClusterMsiCertificate D m))) = filter isWrite (calls m)"
  using ensure_found [OF assms] by simp

theorem ensure_found_is_noop_witness:
  "(let D = exampleDeps True None (exampleCred None);
        m0 = exampleManager (exampleDoc ''tenant'' Map.empty) Map.empty emptyDatabase;
        m1 = snd (ensureClusterMsiCertificate D m0);
        m2 = snd (ensureClusterMsiCertificate D m1)
    in clusterMsiSecretName D m1 = Ok ''doc1-msi'' \<and>
       length (filter isWrite (calls m1)) = 1 \<and>
       fst (GetCredentialsObject D ''doc1-msi'' (world m1)) =
         Inr (\<lparr>Enabled = True, Expires = 1707776000, Name_sp = ''doc1-msi'', NotBefore = 1700000000\<rparr>,
              \<lparr>ExplicitIdentities = None, payload = ''raw''\<rparr>) \<and>
       ensureClusterMsiCertificate D m1 =
         (Return None, m1\<lparr>calls := calls m1 @ [CallGetCredentialsObject ''doc1-msi'']\<rparr>) \<and>
       filter isWrite (calls m2) = filter isWrite (calls m1))"
proof -
  define D where "D = exampleDeps True None (exampleCred None)"
  define m0 where "m0 = exampleManager (exampleDoc ''tenant'' Map.empty) Map.empty emptyDatabase"
  define m1 where "m1 = snd (ensureClusterMsiCertificate D m0)"
  define secret where "secret =
    (\<lparr>Enabled = True, Expires = 1707776000, Name_sp = ''doc1-msi'', NotBefore = 1700000000\<rparr>,
     \<lparr>ExplicitIdentities = None, payload = ''raw''\<rparr>)"
  have m1: "m1 = \<lparr>doc = Some (exampleDoc ''tenant'' Map.empty),
                  world = [''doc1-msi'' \<mapsto> secret],
                  db = emptyDatabase,
                  calls = [CallGetCredentialsObject ''doc1-msi'',
                           CallGetUserAssignedIdentities
                             \<lparr>IdentityURL_req = ''https://msi'', ResourceIDs = [''foo''],
                              TenantID_req = ''tenant''\<rparr>,
                           CallSetCredentialsObject (fst secret) (snd secret)]\<rparr>"
    by (simp add: m1_def m0_def D_def secret_def ensureClusterMsiCertificate_def
        createClusterMsiCertificate_def clusterMsiSecretName_def exampleDeps_def
        exampleManager_def exampleDoc_def exampleCred_def expirationDate_def
        uaMsiRequest_def mockMsiCertValidityDays_def StatusNotFound_def Let_def)
  have name: "clusterMsiSecretName D m1 = Ok ''doc1-msi''"
    by (simp add: m1 D_def clusterMsiSecretName_def exampleDeps_def exampleDoc_def)
  have get: "GetCredentialsObject D ''doc1-msi'' (world m1) = (Inr secret, world m1)"
    by (simp add: m1 D_def exampleDeps_def)
  from ensure_found_is_noop [OF name get] name get
  show ?thesis
    unfolding Let_def D_def [symmetric] m0_def [symmetric] m1_def [symmetric]
    by (simp add: secret_def m1)
qed

text \<open>
  C5: a failed lookup leads to the creation steps only when the error is a response error
  with status 404, and then the identity service is the next call. Any other error, a
  wrapped 404 included, is returned as it came, after the lookup as the only call.
\<close>

theorem ensure_only_not_found_creates:
  assumes name: "clusterMsiSecretName D m = Ok secretName"
      and lookup: "GetCredentialsObject D secretName (world m) = (Inl err, w)"
  shows "(err \<noteq> ResponseError 404 \<longrightarrow>
            ensureClusterMsiCertificate D m =
              (Return (Some err),
               m\<lparr>world := w, calls := calls m @ [CallGetCredentialsObject secretName]\<rparr>)) \<and>
         (err = ResponseError 404 \<longrightarrow>
            ensureClusterMsiCertificate D m =
              createClusterMsiCertificate D secretName
                (m\<lparr>world := w, calls := calls m @ [CallGetCredentialsObject secretName]\<rparr>) \<and>
            (\<exists>req rest. calls (snd (ensureClusterMsiCertificate D m)) =
               calls m @ CallGetCredentialsObject secretName #
                         CallGetUserAssignedIdentities req # rest))"
proof -
  let ?m1 = "m\<lparr>world := w, calls := calls m @ [CallGetCredentialsObject secretName]\<rparr>"
  from secretName_doc [OF name] obtain d rid where
    d: "doc m = Some d" and rid: "ClusterMsiResourceId D (OpenShiftCluster d) = Inr rid"
    by blast
  have e: "ensureClusterMsiCertificate D m =
             (if isNotFound err then createClusterMsiCertificate D secretName ?m1
              else (Return (Some err), ?m1))"
    by (rule ensure_lookup_error [OF name lookup])
  have "doc ?m1 = Some d" using d by simp
  from create_calls_fetch [OF this rid, of secretName] obtain rest where
    "calls (snd (createClusterMsiCertificate D secretName ?m1)) =
       calls ?m1 @ CallGetUserAssignedIdentities (uaMsiRequest d rid) # rest"
    by blast
  then have "calls (snd (createClusterMsiCertificate D secretName ?m1)) =
       calls m @ CallGetCredentialsObject secretName #
                 CallGetUserAssignedIdentities (uaMsiRequest d rid) # rest"
    by simp
  with e show ?thesis
    by (auto simp: isNotFound_iff)
qed

theorem ensure_only_not_found_creates_witness:
  "ensureClusterMsiCertificate
     (exampleDeps False (Some (WrapError ''wrapped'' (ResponseError 404))) (exampleCred None))
     (exampleManager (exampleDoc ''tenant'' Map.empty) Map.empty emptyDatabase) =
     (Return (Some (WrapError ''wrapped'' (ResponseError 404))),
      (exampleManager (exampleDoc ''tenant'' Map.empty) Map.empty emptyDatabase)
        \<lparr>world := Map.empty, calls := [CallGetCredentialsObject ''doc1-msi'']\<rparr>) \<and>
   (\<exists>req rest.
      calls (snd (ensureClusterMsiCertificate (exampleDeps False None (exampleCred None))
        (exampleManager (exampleDoc ''tenant'' Map.empty) Map.empty emptyDatabase))) =
      CallGetCredentialsObject ''doc1-msi'' # CallGetUserAssignedIdentities req # rest)"
proof -
  let ?m = "exampleManager (exampleDoc ''tenant'' Map.empty) Map.empty emptyDatabase"
  let ?D1 = "exampleDeps False (Some (WrapError ''wrapped'' (ResponseError 404))) (exampleCred None)"
  let ?D2 = "exampleDeps False None (exampleCred None)"
  have l1: "GetCredentialsObject ?D1 ''doc1-msi'' (world ?m) =
              (Inl (WrapError ''wrapped'' (ResponseError 404)), Map.empty)"
    by (simp add: example_lookup_fault example_manager_fields)
  have l2: "GetCredentialsObject ?D2 ''doc1-msi'' (world ?m) = (Inl (ResponseError 404), Map.empty)"
    by (simp add: example_lookup_empty example_manager_fields)
  have other: "WrapError ''wrapped'' (ResponseError 404) \<noteq> ResponseError 404"
    by simp
  have a: "ensureClusterMsiCertificate ?D1 ?m =
     (Return (Some (WrapError ''wrapped'' (ResponseError 404))),
      ?m\<lparr>world := Map.empty, calls := calls ?m @ [CallGetCredentialsObject ''doc1-msi'']\<rparr>)"
    using ensure_only_not_found_creates [OF example_secretName l1, THEN conjunct1] other
    by (elim impE)
  have b: "\<exists>req rest. calls (snd (ensureClusterMsiCertificate ?D2 ?m)) =
      calls ?m @ CallGetCredentialsObject ''doc1-msi'' # CallGetUserAssignedIdentities req # rest"
    using ensure_only_not_found_creates [OF example_secretName l2, THEN conjunct2]
    by (elim impE conjE) (rule refl)
  from a b show ?thesis
    by (simp add: example_manager_fields)
qed

text \<open>
  C6: after a "not found" lookup and a successful fetch, with the mock flag set, the
  operation makes one fetch and one write. The written properties are enabled, carry the
  secret name, have \<open>NotBefore\<close> equal to the clock reading taken after the fetch and
  \<open>Expires\<close> equal to \<open>AddDate\<close> of that same reading by 90 days; the operation
  returns what the write returns.
\<close>

theorem ensure_mock_creates_with_ninety_days:
  assumes name: "clusterMsiSecretName D m = Ok secretName"
      and lookup: "GetCredentialsObject D secretName (world m) = (Inl (ResponseError 404), w1)"
      and d: "doc m = Some d"
      and rid: "ClusterMsiResourceId D (OpenShiftCluster d) = Inr rid"
      and fetch: "GetUserAssignedIdentities D (uaMsiRequest d rid) w1 = (Inr cred, w2)"
      and mock: "FeatureIsSet D FeatureUseMockMsiRp"
  shows "\<exists>props.
           Enabled props \<and> Name_sp props = secretName \<and>
           NotBefore props = timeNow D w2 \<and>
           Expires props = AddDate D (NotBefore props) 0 0 90 \<and>
           ensureClusterMsiCertificate D m =
             (Return (fst (SetCredentialsObject D props (CredentialsObject cred) w2)),
              m\<lparr>world := snd (SetCredentialsObject D props (CredentialsObject cred) w2),
                calls := calls m @
                  [CallGetCredentialsObject secretName,
                   CallGetUserAssignedIdentities (uaMsiRequest d rid),
                   CallSetCredentialsObject props (CredentialsObject cred)]\<rparr>) \<and>
           length (filter isFetch (calls (snd (ensureClusterMsiCertificate D m)))) =
             length (filter isFetch (calls m)) + 1 \<and>
           length (filter isWrite (calls (snd (ensureClusterMsiCertificate D m)))) =
             length (filter isWrite (calls m)) + 1"
proof -
  let ?props = "\<lparr>Enabled = True, Expires = AddDate D (timeNow D w2) 0 0 90,
                  Name_sp = secretName, NotBefore = timeNow D w2\<rparr>"
  have nf: "isNotFound (ResponseError 404)"
    by (simp add: StatusNotFound_def)
  have exp: "expirationDate D (timeNow D w2) cred = Inr (AddDate D (timeNow D w2) 0 0 90)"
    using mock by (simp add: expirationDate_def mockMsiCertValidityDays_def)
  have run: "ensureClusterMsiCertificate D m =
             (Return (fst (SetCredentialsObject D ?props (CredentialsObject cred) w2)),
              m\<lparr>world := snd (SetCredentialsObject D ?props (CredentialsObject cred) w2),
                calls := calls m @
                  [CallGetCredentialsObject secretName,
                   CallGetUserAssignedIdentities (uaMsiRequest d rid),
                   CallSetCredentialsObject ?props (CredentialsObject cred)]\<rparr>)"
    by (rule ensure_created [OF name lookup nf d rid fetch exp refl])
  show ?thesis
    by (rule exI [of _ ?props]) (simp add: run)
qed

theorem ensure_mock_creates_with_ninety_days_witness:
  "ensureClusterMsiCertificate (exampleDeps True None (exampleCred None))
     (exampleManager (exampleDoc ''tenant'' Map.empty) Map.empty emptyDatabase) =
     (Return None,
      \<lparr>doc = Some (exampleDoc ''tenant'' Map.empty),
       world = [''doc1-msi'' \<mapsto>
                  (\<lparr>Enabled = True, Expires = 1700000000 + 90 * 86400, Name_sp = ''doc1-msi'',
                    NotBefore = 1700000000\<rparr>,
                   \<lparr>ExplicitIdentities = None, payload = ''raw''\<rparr>)],
       db = emptyDatabase,
       calls = [CallGetCredentialsObject ''doc1-msi'',
                CallGetUserAssignedIdentities
                  \<lparr>IdentityURL_req = ''https://msi'', ResourceIDs = [''foo''],
                   TenantID_req = ''tenant''\<rparr>,
                CallSetCredentialsObject
                  \<lparr>Enabled = True, Expires = 1700000000 + 90 * 86400, Name_sp = ''doc1-msi'',
                   NotBefore = 1700000000\<rparr>
                  \<lparr>ExplicitIdentities = None, payload = ''raw''\<rparr>]\<rparr>)"
proof -
  let ?d = "exampleDoc ''tenant'' Map.empty"
  let ?m = "exampleManager ?d Map.empty emptyDatabase"
  let ?D = "exampleDeps True None (exampleCred None)"
  let ?rid = "\<lparr>Name = ''msi'', String = ''foo''\<rparr>"
  have lookup: "GetCredentialsObject ?D ''doc1-msi'' (world ?m) = (Inl (ResponseError 404), Map.empty)"
    by (simp add: example_lookup_empty example_manager_fields)
  have d: "doc ?m = Some ?d"
    by (simp add: example_manager_fields)
  have mock: "FeatureIsSet ?D FeatureUseMockMsiRp"
    by (simp add: exampleDeps_def)
  from ensure_mock_creates_with_ninety_days
         [OF example_secretName lookup d example_rid example_fetch mock]
  obtain props where
    p1: "Enabled props" and p2: "Name_sp props = ''doc1-msi''"
    and p3: "NotBefore props = timeNow ?D Map.empty"
    and p4: "Expires props = AddDate ?D (NotBefore props) 0 0 90"
    and run: "ensureClusterMsiCertificate ?D ?m =
             (Return (fst (SetCredentialsObject ?D props (CredentialsObject (exampleCred None)) Map.empty)),
              ?m\<lparr>world := snd (SetCredentialsObject ?D props (CredentialsObject (exampleCred None)) Map.empty),
                calls := calls ?m @
                  [CallGetCredentialsObject ''doc1-msi'',
                   CallGetUserAssignedIdentities (uaMsiRequest ?d ?rid),
                   CallSetCredentialsObject props (CredentialsObject (exampleCred None))]\<rparr>)"
    by (elim exE conjE)
  have now: "NotBefore props = 1700000000"
    using p3 by (simp add: exampleDeps_def)
  have exp: "Expires props = 1700000000 + 90 * 86400"
    using p4 unfolding now by (simp add: exampleDeps_def)
  have props: "props = \<lparr>Enabled = True, Expires = 1700000000 + 90 * 86400, Name_sp = ''doc1-msi'',
                         NotBefore = 1700000000\<rparr>"
    using p1 p2 now exp by (cases props) simp
  show ?thesis
    unfolding run example_set example_request
    by (simp add: props exampleManager_def exampleCred_def)
qed

text \<open>
  C7: after a "not found" lookup and a successful fetch, with the mock flag not set and an
  identity extracted: if \<open>NotAfter\<close> is present and \<open>time.Parse\<close> with the layout
  \<open>RFC3339\<close> accepts it, the secret is written with \<open>Expires\<close> equal to the parsed
  instant; if \<open>NotAfter\<close> is nil, or the parser rejects it, the operation returns an
  error (the parser's own in the second case) and the fetch is its last call, so nothing
  is written.
\<close>

theorem ensure_real_mode_uses_NotAfter:
  assumes name: "clusterMsiSecretName D m = Ok secretName"
      and lookup: "GetCredentialsObject D secretName (world m) = (Inl (ResponseError 404), w1)"
      and d: "doc m = Some d"
      and rid: "ClusterMsiResourceId D (OpenShiftCluster d) = Inr rid"
      and fetch: "GetUserAssignedIdentities D (uaMsiRequest d rid) w1 = (Inr cred, w2)"
      and real: "\<not> FeatureIsSet D FeatureUseMockMsiRp"
      and identity: "getSingleExplicitIdentity cred = Inr identity"
  shows "(\<forall>notAfter t.
            NotAfter identity = Some notAfter \<and> timeParse D RFC3339 notAfter = Inr t \<longrightarrow>
            (\<exists>props.
               Expires props = t \<and> NotBefore props = timeNow D w2 \<and>
               Enabled props \<and> Name_sp props = secretName \<and>
               ensureClusterMsiCertificate D m =
                 (Return (fst (SetCredentialsObject D props (CredentialsObject cred) w2)),
                  m\<lparr>world := snd (SetCredentialsObject D props (CredentialsObject cred) w2),
                    calls := calls m @
                      [CallGetCredentialsObject secretName,
                       CallGetUserAssignedIdentities (uaMsiRequest d rid),
                       CallSetCredentialsObject props (CredentialsObject cred)]\<rparr>))) \<and>
         (NotAfter identity = None \<longrightarrow>
            ensureClusterMsiCertificate D m =
              (Return (Some (ErrorString ''unable to pull NotAfter from the MSI CredentialsObject'')),
               m\<lparr>world := w2,
                 calls := calls m @
                   [CallGetCredentialsObject secretName,
                    CallGetUserAssignedIdentities (uaMsiRequest d rid)]\<rparr>)) \<and>
         (\<forall>notAfter e.
            NotAfter identity = Some notAfter \<and> timeParse D RFC3339 notAfter = Inl e \<longrightarrow>
            ensureClusterMsiCertificate D m =
              (Return (Some e),
               m\<lparr>world := w2,
                 calls := calls m @
                   [CallGetCredentialsObject secretName,
                    CallGetUserAssignedIdentities (uaMsiRequest d rid)]\<rparr>))"
proof -
  have nf: "isNotFound (ResponseError 404)"
    by (simp add: StatusNotFound_def)
  have exp: "expirationDate D (timeNow D w2) cred =
               (case NotAfter identity of
                  None \<Rightarrow> Inl (ErrorString ''unable to pull NotAfter from the MSI CredentialsObject'')
                | Some notAfter \<Rightarrow> timeParse D RFC3339 notAfter)"
    using real identity by (simp add: expirationDate_def)
  have parsed: "\<exists>props.
               Expires props = t \<and> NotBefore props = timeNow D w2 \<and>
               Enabled props \<and> Name_sp props = secretName \<and>
               ensureClusterMsiCertificate D m =
                 (Return (fst (SetCredentialsObject D props (CredentialsObject cred) w2)),
                  m\<lparr>world := snd (SetCredentialsObject D props (CredentialsObject cred) w2),
                    calls := calls m @
                      [CallGetCredentialsObject secretName,
                       CallGetUserAssignedIdentities (uaMsiRequest d rid),
                       CallSetCredentialsObject props (CredentialsObject cred)]\<rparr>)"
    if "NotAfter identity = Some notAfter" "timeParse D RFC3339 notAfter = Inr t" for notAfter t
  proof -
    let ?props = "\<lparr>Enabled = True, Expires = t, Name_sp = secretName, NotBefore = timeNow D w2\<rparr>"
    have "expirationDate D (timeNow D w2) cred = Inr t"
      using exp that by simp
    from ensure_created [OF name lookup nf d rid fetch this refl]
    show ?thesis
      by (intro exI [of _ ?props]) simp
  qed
  have absent: "ensureClusterMsiCertificate D m =
              (Return (Some (ErrorString ''unable to pull NotAfter from the MSI CredentialsObject'')),
               m\<lparr>world := w2,
                 calls := calls m @
                   [CallGetCredentialsObject secretName,
                    CallGetUserAssignedIdentities (uaMsiRequest d rid)]\<rparr>)"
    if "NotAfter identity = None"
  proof -
    have "expirationDate D (timeNow D w2) cred =
            Inl (ErrorString ''unable to pull NotAfter from the MSI CredentialsObject'')"
      using exp that by simp
    from ensure_not_created [OF name lookup nf d rid fetch this]
    show ?thesis .
  qed
  have malformed: "ensureClusterMsiCertificate D m =
              (Return (Some e),
               m\<lparr>world := w2,
                 calls := calls m @
                   [CallGetCredentialsObject secretName,
                    CallGetUserAssignedIdentities (uaMsiRequest d rid)]\<rparr>)"
    if "NotAfter identity = Some notAfter" "timeParse D RFC3339 notAfter = Inl e" for notAfter e
  proof -
    have "expirationDate D (timeNow D w2) cred = Inl e"
      using exp that by simp
    from ensure_not_created [OF name lookup nf d rid fetch this]
    show ?thesis .
  qed
  from parsed absent malformed show ?thesis
    by blast
qed

theorem ensure_real_mode_uses_NotAfter_witness:
  "(\<exists>w cs. ensureClusterMsiCertificate
        (exampleDeps False None (exampleCred (Some [Some (exampleIdentity (Some ''2030-01-01T00:00:00Z''))])))
        (exampleManager (exampleDoc ''tenant'' Map.empty) Map.empty emptyDatabase) =
      (Return None,
       \<lparr>doc = Some (exampleDoc ''tenant'' Map.empty), world = w, db = emptyDatabase, calls = cs\<rparr>) \<and>
      filter isWrite cs =
        [CallSetCredentialsObject
           \<lparr>Enabled = True, Expires = 1893456000, Name_sp = ''doc1-msi'', NotBefore = 1700000000\<rparr>
           (CredentialsObject
              (exampleCred (Some [Some (exampleIdentity (Some ''2030-01-01T00:00:00Z''))])))]) \<and>
   ensureClusterMsiCertificate
     (exampleDeps False None (exampleCred (Some [Some (exampleIdentity None)])))
     (exampleManager (exampleDoc ''tenant'' Map.empty) Map.empty emptyDatabase) =
     (Return (Some (ErrorString ''unable to pull NotAfter from the MSI CredentialsObject'')),
      \<lparr>doc = Some (exampleDoc ''tenant'' Map.empty), world = Map.empty, db = emptyDatabase,
       calls = [CallGetCredentialsObject ''doc1-msi'',
                CallGetUserAssignedIdentities
                  \<lparr>IdentityURL_req = ''https://msi'', ResourceIDs = [''foo''],
                   TenantID_req = ''tenant''\<rparr>]\<rparr>) \<and>
   ensureClusterMsiCertificate
     (exampleDeps False None (exampleCred (Some [Some (exampleIdentity (Some ''01/01/2030''))])))
     (exampleManager (exampleDoc ''tenant'' Map.empty) Map.empty emptyDatabase) =
     (Return (Some (ErrorString ''cannot parse'')),
      \<lparr>doc = Some (exampleDoc ''tenant'' Map.empty), world = Map.empty, db = emptyDatabase,
       calls = [CallGetCredentialsObject ''doc1-msi'',
                CallGetUserAssignedIdentities
                  \<lparr>IdentityURL_req = ''https://msi'', ResourceIDs = [''foo''],
                   TenantID_req = ''tenant''\<rparr>]\<rparr>)"
proof -
  let ?d = "exampleDoc ''tenant'' Map.empty"
  let ?m = "exampleManager ?d Map.empty emptyDatabase"
  let ?rid = "\<lparr>Name = ''msi'', String = ''foo''\<rparr>"
  let ?good = "exampleCred (Some [Some (exampleIdentity (Some ''2030-01-01T00:00:00Z''))])"
  let ?absent = "exampleCred (Some [Some (exampleIdentity None)])"
  let ?bad = "exampleCred (Some [Some (exampleIdentity (Some ''01/01/2030''))])"
  have lookup: "GetCredentialsObject (exampleDeps False None cred) ''doc1-msi'' (world ?m) =
                  (Inl (ResponseError 404), Map.empty)" for cred
    by (simp add: example_lookup_empty example_manager_fields)
  have d: "doc ?m = Some ?d"
    by (simp add: example_manager_fields)
  have real: "\<not> FeatureIsSet (exampleDeps False None cred) FeatureUseMockMsiRp" for cred
    by (simp add: exampleDeps_def)
  have na: "NotAfter (exampleIdentity x) = x" for x
    by (simp add: exampleIdentity_def)
  have parse_good: "timeParse (exampleDeps False None ?good) RFC3339 ''2030-01-01T00:00:00Z'' =
                      Inr 1893456000"
    by (simp add: exampleDeps_def)
  have parse_bad: "timeParse (exampleDeps False None ?bad) RFC3339 ''01/01/2030'' =
                     Inl (ErrorString ''cannot parse'')"
    by (simp add: exampleDeps_def)
  have now: "timeNow (exampleDeps False None cred) w = 1700000000" for cred and w :: store
    by (simp add: exampleDeps_def)
  from ensure_real_mode_uses_NotAfter
           [where D = "exampleDeps False None ?good" and cred = "?good",
            OF example_secretName lookup d example_rid example_fetch real example_single, THEN conjunct1, THEN spec, THEN spec, THEN mp,
           OF conjI, OF na parse_good]
  obtain props where
    p1: "Expires props = 1893456000" and p2: "NotBefore props = timeNow (exampleDeps False None ?good) Map.empty"
    and p3: "Enabled props" and p4: "Name_sp props = ''doc1-msi''"
    and run: "ensureClusterMsiCertificate (exampleDeps False None ?good) ?m =
                 (Return (fst (SetCredentialsObject (exampleDeps False None ?good) props
                                 (CredentialsObject ?good) Map.empty)),
                  ?m\<lparr>world := snd (SetCredentialsObject (exampleDeps False None ?good) props
                                      (CredentialsObject ?good) Map.empty),
                    calls := calls ?m @
                      [CallGetCredentialsObject ''doc1-msi'',
                       CallGetUserAssignedIdentities (uaMsiRequest ?d ?rid),
                       CallSetCredentialsObject props (CredentialsObject ?good)]\<rparr>)"
    by (elim exE conjE)
  have props: "props = \<lparr>Enabled = True, Expires = 1893456000, Name_sp = ''doc1-msi'',
                         NotBefore = 1700000000\<rparr>"
    using p1 p2 p3 p4 unfolding now by (cases props) simp
  have a: "\<exists>w cs. ensureClusterMsiCertificate (exampleDeps False None ?good) ?m =
      (Return None, \<lparr>doc = Some ?d, world = w, db = emptyDatabase, calls = cs\<rparr>) \<and>
      filter isWrite cs =
        [CallSetCredentialsObject
           \<lparr>Enabled = True, Expires = 1893456000, Name_sp = ''doc1-msi'', NotBefore = 1700000000\<rparr>
           (CredentialsObject ?good)]"
    unfolding run example_set
    by (simp add: props exampleManager_def)
  have b: "ensureClusterMsiCertificate (exampleDeps False None ?absent) ?m =
     (Return (Some (ErrorString ''unable to pull NotAfter from the MSI CredentialsObject'')),
      \<lparr>doc = Some ?d, world = Map.empty, db = emptyDatabase,
       calls = [CallGetCredentialsObject ''doc1-msi'',
                CallGetUserAssignedIdentities
                  \<lparr>IdentityURL_req = ''https://msi'', ResourceIDs = [''foo''],
                   TenantID_req = ''tenant''\<rparr>]\<rparr>)"
    using ensure_real_mode_uses_NotAfter
           [where D = "exampleDeps False None ?absent" and cred = "?absent",
            OF example_secretName lookup d example_rid example_fetch real example_single, THEN conjunct2, THEN conjunct1, THEN mp, OF na]
    unfolding example_request
    by (simp add: exampleManager_def)
  have c: "ensureClusterMsiCertificate (exampleDeps False None ?bad) ?m =
     (Return (Some (ErrorString ''cannot parse'')),
      \<lparr>doc = Some ?d, world = Map.empty, db = emptyDatabase,
       calls = [CallGetCredentialsObject ''doc1-msi'',
                CallGetUserAssignedIdentities
                  \<lparr>IdentityURL_req = ''https://msi'', ResourceIDs = [''foo''],
                   TenantID_req = ''tenant''\<rparr>]\<rparr>)"
    using ensure_real_mode_uses_NotAfter
           [where D = "exampleDeps False None ?bad" and cred = "?bad",
            OF example_secretName lookup d example_rid example_fetch real example_single, THEN conjunct2, THEN conjunct2, THEN spec, THEN spec, THEN mp,
              OF conjI, OF na parse_bad]
    unfolding example_request
    by (simp add: exampleManager_def)
  from a b c show ?thesis
    by (intro conjI)
qed

text \<open>
  C9: with the mock flag set, the outcome after a successful fetch is the outcome of the
  write, whatever the explicit identities of the response are: even when
  \<open>getSingleExplicitIdentity\<close> would fail on the response, a successful write makes the
  operation succeed, and the one write carries the credentials object of the response.
\<close>

theorem ensure_mock_ignores_explicit_identities:
  assumes name: "clusterMsiSecretName D m = Ok secretName"
      and lookup: "GetCredentialsObject D secretName (world m) = (Inl (ResponseError 404), w1)"
      and d: "doc m = Some d"
      and rid: "ClusterMsiResourceId D (OpenShiftCluster d) = Inr rid"
      and fetch: "GetUserAssignedIdentities D (uaMsiRequest d rid) w1 = (Inr cred, w2)"
      and mock: "FeatureIsSet D FeatureUseMockMsiRp"
  shows "\<exists>props.
           fst (ensureClusterMsiCertificate D m) =
             Return (fst (SetCredentialsObject D props (CredentialsObject cred) w2)) \<and>
           (getSingleExplicitIdentity cred = Inl errClusterMsiNotPresentInResponse \<and>
            fst (SetCredentialsObject D props (CredentialsObject cred) w2) = None \<longrightarrow>
              fst (ensureClusterMsiCertificate D m) = Return None) \<and>
           filter isWrite (calls (snd (ensureClusterMsiCertificate D m))) =
             filter isWrite (calls m) @ [CallSetCredentialsObject props (CredentialsObject cred)]"
proof -
  let ?props = "\<lparr>Enabled = True, Expires = AddDate D (timeNow D w2) 0 0 90,
                  Name_sp = secretName, NotBefore = timeNow D w2\<rparr>"
  have nf: "isNotFound (ResponseError 404)"
    by (simp add: StatusNotFound_def)
  have exp: "expirationDate D (timeNow D w2) cred = Inr (AddDate D (timeNow D w2) 0 0 90)"
    using mock by (simp add: expirationDate_def mockMsiCertValidityDays_def)
  have run: "ensureClusterMsiCertificate D m =
             (Return (fst (SetCredentialsObject D ?props (CredentialsObject cred) w2)),
              m\<lparr>world := snd (SetCredentialsObject D ?props (CredentialsObject cred) w2),
                calls := calls m @
                  [CallGetCredentialsObject secretName,
                   CallGetUserAssignedIdentities (uaMsiRequest d rid),
                   CallSetCredentialsObject ?props (CredentialsObject cred)]\<rparr>)"
    by (rule ensure_created [OF name lookup nf d rid fetch exp refl])
  show ?thesis
    by (rule exI [of _ ?props]) (simp add: run)
qed

theorem ensure_mock_ignores_explicit_identities_witness:
  "getSingleExplicitIdentity (exampleCred None) = Inl errClusterMsiNotPresentInResponse \<and>
   fst (ensureClusterMsiCertificate (exampleDeps True None (exampleCred None))
          (exampleManager (exampleDoc ''tenant'' Map.empty) Map.empty emptyDatabase)) = Return None \<and>
   (\<exists>props. filter isWrite (calls (snd (ensureClusterMsiCertificate
          (exampleDeps True None (exampleCred None))
          (exampleManager (exampleDoc ''tenant'' Map.empty) Map.empty emptyDatabase)))) =
      [CallSetCredentialsObject props \<lparr>ExplicitIdentities = None, payload = ''raw''\<rparr>])"
proof -
  let ?d = "exampleDoc ''tenant'' Map.empty"
  let ?m = "exampleManager ?d Map.empty emptyDatabase"
  let ?D = "exampleDeps True None (exampleCred None)"
  have lookup: "GetCredentialsObject ?D ''doc1-msi'' (world ?m) = (Inl (ResponseError 404), Map.empty)"
    by (simp add: example_lookup_empty example_manager_fields)
  have d: "doc ?m = Some ?d"
    by (simp add: example_manager_fields)
  have mock: "FeatureIsSet ?D FeatureUseMockMsiRp"
    by (simp add: exampleDeps_def)
  have absent: "getSingleExplicitIdentity (exampleCred None) = Inl errClusterMsiNotPresentInResponse"
    by (simp add: getSingleExplicitIdentity_def exampleCred_def)
  from ensure_mock_ignores_explicit_identities
         [OF example_secretName lookup d example_rid example_fetch mock]
  obtain props where
    imp: "getSingleExplicitIdentity (exampleCred None) = Inl errClusterMsiNotPresentInResponse \<and>
          fst (SetCredentialsObject ?D props (CredentialsObject (exampleCred None)) Map.empty) = None \<longrightarrow>
          fst (ensureClusterMsiCertificate ?D ?m) = Return None"
    and writes: "filter isWrite (calls (snd (ensureClusterMsiCertificate ?D ?m))) =
             filter isWrite (calls ?m) @
               [CallSetCredentialsObject props (CredentialsObject (exampleCred None))]"
    by (elim exE conjE)
  have "fst (SetCredentialsObject ?D props (CredentialsObject (exampleCred None)) Map.empty) = None"
    by (simp add: example_set)
  with imp absent have a: "fst (ensureClusterMsiCertificate ?D ?m) = Return None"
    by (elim impE) (intro conjI)
  from writes have b: "filter isWrite (calls (snd (ensureClusterMsiCertificate ?D ?m))) =
      [CallSetCredentialsObject props \<lparr>ExplicitIdentities = None, payload = ''raw''\<rparr>]"
    by (simp add: example_manager_fields exampleCred_def)
  from absent a b show ?thesis
    by (intro conjI exI [of _ props])
qed

subsection \<open>Reconciliation of the identity ids\<close>

text \<open>
  C8: on a document that does not use workload identity, \<open>clusterIdentityIDs\<close> returns
  its error before any call: the manager, its document, the stores and the call log are
  what they were.
\<close>

theorem clusterIdentityIDs_rejects_non_workload_identity:
  assumes "doc m = Some d"
      and "\<not> UsesWorkloadIdentity D (OpenShiftCluster d)"
  shows "clusterIdentityIDs D m =
           (Return (Some (ErrorString ''clusterIdentityIDs called for CSP cluster'')), m)"
  using assms by (simp add: clusterIdentityIDs_def)

theorem clusterIdentityIDs_rejects_non_workload_identity_witness:
  "clusterIdentityIDs (exampleDeps False None (exampleCred None))
     (exampleManager (exampleDoc ''csp'' Map.empty) Map.empty emptyDatabase) =
   (Return (Some (ErrorString ''clusterIdentityIDs called for CSP cluster'')),
    exampleManager (exampleDoc ''csp'' Map.empty) Map.empty emptyDatabase)"
  by (rule clusterIdentityIDs_rejects_non_workload_identity
            [where d = "exampleDoc ''csp'' Map.empty"])
     (simp_all add: exampleManager_def exampleDeps_def exampleDoc_def)

text \<open>Aborting a patch: the store is left as it was.\<close>

lemma PatchWithLease_abort:
  assumes "key \<notin> leased base"
      and "documents base key = Some (version, stored)"
      and "mutate stored = (Some e, stored')"
  shows "PatchWithLease interim key mutate base = ((None, Some e), base)"
  using assms by (simp add: PatchWithLease_def acquire_def release_def)

lemma clusterIdentityIDs_patch:
  assumes "doc m = Some d"
      and "UsesWorkloadIdentity D (OpenShiftCluster d)"
      and "ClusterMsiResourceId D (OpenShiftCluster d) = Inr rid"
      and "GetUserAssignedIdentities D (uaMsiRequest d rid) (world m) = (Inr cred, w)"
      and "getSingleExplicitIdentity cred = Inr identity"
      and "ClientID_nested identity = Some clientID"
      and "ObjectID identity = Some objectID"
      and "PatchWithLease (otherWriters D) (Key d)
             (\<lambda>doc. patchIdentityIDs (rangeOrder D (identities doc)) rid clientID objectID doc)
             (db m) = ((doc', err), db')"
  shows "clusterIdentityIDs D m =
           (Return err,
            m\<lparr>world := w, doc := doc', db := db',
              calls := calls m @ [CallGetUserAssignedIdentities (uaMsiRequest d rid),
                                  CallPatchWithLease (Key d)]\<rparr>)"
  using assms by (simp add: clusterIdentityIDs_def Let_def)

text \<open>
  C2: when no key of the stored document folds onto the resource id, the mutation returns
  its "no entries found" error and leaves its copy untouched for every traversal order,
  \<open>PatchWithLease\<close> hands that error back without a write, and \<open>clusterIdentityIDs\<close>
  returns it: the document store, and with it the stored version and content under the
  key, is the same as before the call, and no secret is written either.
\<close>

theorem patch_without_match_aborts_unchanged:
  assumes nomatch: "\<forall>k \<in> dom (identities stored). \<not> EqualFold k (String rid)"
      and d: "doc m = Some d"
      and wi: "UsesWorkloadIdentity D (OpenShiftCluster d)"
      and rid: "ClusterMsiResourceId D (OpenShiftCluster d) = Inr rid"
      and fetch: "GetUserAssignedIdentities D (uaMsiRequest d rid) (world m) = (Inr cred, w)"
      and identity: "getSingleExplicitIdentity cred = Inr identity"
      and clientID: "ClientID_nested identity = Some clientID"
      and objectID: "ObjectID identity = Some objectID"
      and free: "Key d \<notin> leased (db m)"
      and stored: "documents (db m) (Key d) = Some (version, stored)"
  shows "patchIdentityIDs ks rid clientID objectID stored =
           (Some (ErrorString ''no entries found matching clusterMsiResourceId''), stored) \<and>
         PatchWithLease interim (Key d)
           (\<lambda>doc. patchIdentityIDs (order (identities doc)) rid clientID objectID doc) (db m) =
           ((None, Some (ErrorString ''no entries found matching clusterMsiResourceId'')), db m) \<and>
         fst (clusterIdentityIDs D m) =
           Return (Some (ErrorString ''no entries found matching clusterMsiResourceId'')) \<and>
         db (snd (clusterIdentityIDs D m)) = db m \<and>
         documents (db (snd (clusterIdentityIDs D m))) (Key d) = Some (version, stored) \<and>
         filter isWrite (calls (snd (clusterIdentityIDs D m))) = filter isWrite (calls m)"
proof -
  let ?e = "ErrorString ''no entries found matching clusterMsiResourceId''"
  have mut: "patchIdentityIDs ks' rid clientID objectID stored = (Some ?e, stored)" for ks'
    by (rule patchIdentityIDs_nomatch [OF nomatch])
  have patch: "PatchWithLease interim' (Key d)
              (\<lambda>doc. patchIdentityIDs (order' (identities doc)) rid clientID objectID doc) (db m) =
              ((None, Some ?e), db m)" for interim' order'
    by (rule PatchWithLease_abort [OF free stored]) (rule mut)
  have run: "clusterIdentityIDs D m =
           (Return (Some ?e),
            m\<lparr>world := w, doc := None, db := db m,
              calls := calls m @ [CallGetUserAssignedIdentities (uaMsiRequest d rid),
                                  CallPatchWithLease (Key d)]\<rparr>)"
    by (rule clusterIdentityIDs_patch [OF d wi rid fetch identity clientID objectID patch])
  have "fst (clusterIdentityIDs D m) = Return (Some ?e)"
    and "db (snd (clusterIdentityIDs D m)) = db m"
    and "filter isWrite (calls (snd (clusterIdentityIDs D m))) = filter isWrite (calls m)"
    unfolding run by simp_all
  with mut patch stored show ?thesis
    by simp
qed

theorem patch_without_match_aborts_unchanged_witness:
  "patchIdentityIDs [''bar''] \<lparr>Name = ''msi'', String = ''foo''\<rparr> ''client'' ''object'' exampleStored =
     (Some (ErrorString ''no entries found matching clusterMsiResourceId''), exampleStored) \<and>
   fst (clusterIdentityIDs (exampleDeps False None (exampleCred (Some [Some (exampleIdentity None)])))
          (exampleManager exampleStored Map.empty exampleDatabase)) =
     Return (Some (ErrorString ''no entries found matching clusterMsiResourceId'')) \<and>
   db (snd (clusterIdentityIDs (exampleDeps False None (exampleCred (Some [Some (exampleIdentity None)])))
          (exampleManager exampleStored Map.empty exampleDatabase))) = exampleDatabase \<and>
   documents exampleDatabase ''key1'' = Some (3, exampleStored)"
proof -
  let ?rid = "\<lparr>Name = ''msi'', String = ''foo''\<rparr>"
  let ?cred = "exampleCred (Some [Some (exampleIdentity None)])"
  let ?D = "exampleDeps False None ?cred"
  let ?m = "exampleManager exampleStored Map.empty exampleDatabase"
  have ids: "identities exampleStored = [''bar'' \<mapsto> \<lparr>ClientID = ''b'', PrincipalID = ''b''\<rparr>]"
    by (simp add: exampleStored_def exampleDoc_def)
  have "\<not> EqualFold ''bar'' ''foo''"
    by (simp add: foldEq_def)
  then have nomatch: "\<forall>k \<in> dom (identities exampleStored). \<not> EqualFold k (String ?rid)"
    unfolding ids by simp
  have h1: "doc ?m = Some exampleStored"
    by (simp add: example_manager_fields)
  have h2: "UsesWorkloadIdentity ?D (OpenShiftCluster exampleStored)"
    by (simp add: exampleDeps_def exampleStored_def exampleDoc_def)
  have h4: "GetUserAssignedIdentities ?D (uaMsiRequest exampleStored ?rid) (world ?m) =
              (Inr ?cred, Map.empty)"
    by (simp add: example_fetch example_manager_fields)
  have h6: "ClientID_nested (exampleIdentity None) = Some ''client''"
    by (simp add: exampleIdentity_def)
  have h7: "ObjectID (exampleIdentity None) = Some ''object''"
    by (simp add: exampleIdentity_def)
  have h8: "Key exampleStored \<notin> leased (db ?m)"
    by (simp add: example_manager_fields exampleDatabase_def)
  have h9: "documents (db ?m) (Key exampleStored) = Some (3, exampleStored)"
    by (simp add: example_manager_fields exampleDatabase_def exampleStored_def exampleDoc_def)
  note C2 = patch_without_match_aborts_unchanged
              [OF nomatch h1 h2 example_rid h4 example_single h6 h7 h8 h9]
  have a: "patchIdentityIDs [''bar''] ?rid ''client'' ''object'' exampleStored =
         (Some (ErrorString ''no entries found matching clusterMsiResourceId''), exampleStored)"
    by (rule C2 [THEN conjunct1])
  have b: "fst (clusterIdentityIDs ?D ?m) =
             Return (Some (ErrorString ''no entries found matching clusterMsiResourceId''))"
    by (rule C2 [THEN conjunct2, THEN conjunct2, THEN conjunct1])
  have c: "db (snd (clusterIdentityIDs ?D ?m)) = db ?m"
    by (rule C2 [THEN conjunct2, THEN conjunct2, THEN conjunct2, THEN conjunct1])
  have dbm: "db ?m = exampleDatabase"
    by (simp add: example_manager_fields)
  have e: "documents exampleDatabase ''key1'' = Some (3, exampleStored)"
    by (simp add: exampleDatabase_def)
  from a b c [unfolded dbm] e show ?thesis
    by (intro conjI)
qed

end
